theory Spec2Isabelle
  imports Main "HOL-Library.Word" "HOL-Library.Char_ord" "HOL-Library.List_Lexorder"
    "HOL-Library.Multiset"
begin

unbundle bit_operations_syntax

section \<open>Data model of server.go\<close>

text \<open>
  The two structs of the program. The Go type \<open>float64\<close> is kept abstract as the type
  variable \<open>'f\<close>: the program never computes with a value, it only hands it to package
  \<open>fmt\<close> for printing and gets it back from \<open>strconv.ParseFloat\<close>. A Go string is a
  sequence of bytes, which is what \<open>string\<close> is here.
\<close>

record 'f Reading =
  Timestamp :: string
  Value :: 'f

record 'f Readings =
  Sensor_id :: "32 word"
  Readings :: "'f Reading list"

section \<open>The Go standard library, as far as the program calls it\<close>

subsection \<open>Functions taken as parameters\<close>

text \<open>
  Three library functions are parameters of the model, gathered in one record:
  \<^item> \<open>Sprint\<close>: the text that \<open>fmt.Fprintln\<close> prints for a \<open>float64\<close> operand;
  \<^item> \<open>ParseFloat\<close>: \<open>strconv.ParseFloat(s, 64)\<close>, returning the value and the error
    (\<open>None\<close> for \<open>nil\<close>);
  \<^item> \<open>sort_Slice\<close>: \<open>sort.Slice\<close>, from the comparison and the slice to the slice
    after sorting.
\<close>

datatype NumError = ErrSyntax | ErrRange

record 'f golib =
  Sprint :: "'f \<Rightarrow> string"
  ParseFloat :: "string \<Rightarrow> 'f \<times> NumError option"
  sort_Slice :: "('f Reading \<Rightarrow> 'f Reading \<Rightarrow> bool) \<Rightarrow> 'f Reading list \<Rightarrow> 'f Reading list"

subsection \<open>Formatting\<close>

abbreviation NL :: char where "NL \<equiv> CHR 0x0A"
abbreviation CR :: char where "CR \<equiv> CHR 0x0D"
abbreviation SP :: char where "SP \<equiv> CHR 0x20"

text \<open>The verb \<open>%d\<close> of \<open>fmt.Sprintf\<close> on an unsigned integer.\<close>

fun decimal :: "nat \<Rightarrow> string" where
  "decimal n =
     (if n < 10 then [''0123456789'' ! n]
      else decimal (n div 10) @ [''0123456789'' ! (n mod 10)])"

declare decimal.simps [simp del]

text \<open>
  \<open>fmt.Fprintln(writer, reading.Timestamp, reading.Value)\<close>: the operands separated by
  one space, then a newline. \<open>encode\<close> is the line without its newline.
\<close>

definition encode :: "'f golib \<Rightarrow> 'f Reading \<Rightarrow> string" where
  "encode lib reading = Timestamp reading @ [SP] @ Sprint lib (Value reading)"

definition Fprintln :: "'f golib \<Rightarrow> 'f Reading \<Rightarrow> string" where
  "Fprintln lib reading = encode lib reading @ [NL]"

subsection \<open>strings.Split\<close>

text \<open>
  \<open>strings.Split(s, sep)\<close> for a separator of one byte: \<open>n\<close> separators give
  \<open>n + 1\<close> fields, so the result is never empty.
\<close>

fun Split :: "string \<Rightarrow> char \<Rightarrow> string list" where
  "Split [] sep = [[]]"
| "Split (c # cs) sep =
     (if c = sep then [] # Split cs sep
      else (case Split cs sep of
              [] \<Rightarrow> [[c]]
            | first # others \<Rightarrow> (c # first) # others))"

subsection \<open>bufio.Scanner\<close>

text \<open>
  A scanner with the default split function \<open>bufio.ScanLines\<close> and the default buffer.
  A token is the text up to the next newline, without one trailing carriage return; the
  text after the last newline is a token too unless it is empty. A line must fit into the
  buffer of \<open>MaxScanTokenSize\<close> bytes together with its newline: at a longer line
  \<open>Scan\<close> returns false for good (the error is \<open>ErrTooLong\<close>, which the program never
  asks for). The first argument of \<open>Scan\<close> is the part of the current line already seen.
\<close>

definition MaxScanTokenSize :: nat where
  "MaxScanTokenSize = 64 * 1024"

definition dropCR :: "string \<Rightarrow> string" where
  "dropCR data = (if data \<noteq> [] \<and> last data = CR then butlast data else data)"

definition token :: "string \<Rightarrow> string list \<Rightarrow> string list" where
  "token line later = (if length line < MaxScanTokenSize then dropCR line # later else [])"

fun Scan :: "string \<Rightarrow> string \<Rightarrow> string list" where
  "Scan line [] = (if line = [] then [] else token line [])"
| "Scan line (c # cs) = (if c = NL then token line (Scan [] cs) else Scan (line @ [c]) cs)"

subsection \<open>Files\<close>

text \<open>
  The part of the operating system the program sees. A file has its bytes and the two
  permissions the program needs; a disk maps names to files, may or may not allow a new
  file to be created, and may or may not accept more bytes. A write is all or nothing
  here: a write that the device cuts short in the middle is not modelled. Reading an opened
  file does not fail.
\<close>

datatype errno = ENOENT | EACCES | ENOSPC

record osfile =
  content :: string
  readable :: bool
  writable :: bool

record disk =
  files :: "string \<rightharpoonup> osfile"
  dir_writable :: bool
  space_left :: bool

text \<open>\<open>os.Open(name)\<close>: the bytes that the returned file will deliver.\<close>

definition os_Open :: "disk \<Rightarrow> string \<Rightarrow> errno + string" where
  "os_Open d name =
     (case files d name of
        None \<Rightarrow> Inl ENOENT
      | Some f \<Rightarrow> if readable f then Inr (content f) else Inl EACCES)"

text \<open>\<open>os.OpenFile(name, os.O_APPEND|os.O_CREATE|os.O_WRONLY, 0644)\<close>.\<close>

definition os_OpenFile :: "disk \<Rightarrow> string \<Rightarrow> errno + disk" where
  "os_OpenFile d name =
     (case files d name of
        None \<Rightarrow>
          if dir_writable d
          then Inr (d\<lparr>files := (files d)(name \<mapsto> \<lparr>content = [], readable = True, writable = True\<rparr>)\<rparr>)
          else Inl EACCES
      | Some f \<Rightarrow> if writable f then Inr d else Inl EACCES)"

text \<open>Writing bytes to a file opened with \<open>O_APPEND\<close>; nothing to write is no write.\<close>

definition os_Write :: "disk \<Rightarrow> string \<Rightarrow> string \<Rightarrow> errno + disk" where
  "os_Write d name bytes =
     (case files d name of
        None \<Rightarrow> Inl ENOENT
      | Some f \<Rightarrow>
          if bytes = [] \<or> space_left d
          then Inr (d\<lparr>files := (files d)(name \<mapsto> f\<lparr>content := content f @ bytes\<rparr>)\<rparr>)
          else Inl ENOSPC)"

section \<open>The program\<close>

text \<open>\<open>fmt.Sprintf("%s%d", *dataDir, sensorId)\<close>, the name of a sensor's file.\<close>

definition filename :: "string \<Rightarrow> 32 word \<Rightarrow> string" where
  "filename dataDir sensorId = dataDir @ decimal (unat sensorId)"

subsection \<open>write\<close>

text \<open>
  Function \<open>write\<close>. An error of \<open>os.OpenFile\<close> is returned. The results of
  \<open>fmt.Fprintln\<close> and of \<open>writer.Flush()\<close> are not looked at: after the file has been
  opened the function returns \<open>nil\<close>. The buffered writer passes the lines on in the
  order they were printed.
\<close>

definition "write" :: "'f golib \<Rightarrow> 'f Readings \<Rightarrow> string \<Rightarrow> disk \<Rightarrow> disk \<times> errno option" where
  "write lib readings dataDir d =
     (let name = filename dataDir (Sensor_id readings) in
      case os_OpenFile d name of
        Inl err \<Rightarrow> (d, Some err)
      | Inr opened \<Rightarrow>
          (let buffered = concat (map (Fprintln lib) (Readings readings)) in
           case os_Write opened name buffered of
             Inl _ \<Rightarrow> (opened, None)
           | Inr flushed \<Rightarrow> (flushed, None)))"

subsection \<open>read\<close>

text \<open>
  The body of the scanning loop: \<open>split[1]\<close> is evaluated first and panics when the
  line has no space; the error of \<open>ParseFloat\<close> is discarded and its value kept.
\<close>

datatype panic = IndexOutOfRange nat nat

definition decode :: "'f golib \<Rightarrow> string \<Rightarrow> panic + 'f Reading" where
  "decode lib text =
     (let split = Split text SP in
      if length split \<le> 1 then Inl (IndexOutOfRange 1 (length split))
      else Inr \<lparr>Timestamp = split ! 0, Value = fst (ParseFloat lib (split ! 1))\<rparr>)"

fun scan_loop :: "'f golib \<Rightarrow> 'f Reading list \<Rightarrow> string list \<Rightarrow> panic + 'f Reading list" where
  "scan_loop lib readings [] = Inr readings"
| "scan_loop lib readings (text # later) =
     (case decode lib text of
        Inl p \<Rightarrow> Inl p
      | Inr reading \<Rightarrow> scan_loop lib (readings @ [reading]) later)"

text \<open>
  Function \<open>read\<close>. Whatever the error of \<open>os.Open\<close>, the result is the empty batch.
  The comparison handed to \<open>sort.Slice\<close> is \<open><\<close> on the timestamps, which Go
  evaluates byte by byte.
\<close>

definition read :: "'f golib \<Rightarrow> 32 word \<Rightarrow> string \<Rightarrow> disk \<Rightarrow> panic + 'f Readings" where
  "read lib sensorId dataDir d =
     (case os_Open d (filename dataDir sensorId) of
        Inl err \<Rightarrow> Inr \<lparr>Sensor_id = sensorId, Readings = []\<rparr>
      | Inr bytes \<Rightarrow>
          (case scan_loop lib [] (Scan [] bytes) of
             Inl p \<Rightarrow> Inl p
           | Inr readings \<Rightarrow>
               Inr \<lparr>Sensor_id = sensorId,
                    Readings = sort_Slice lib (\<lambda>a b. Timestamp a < Timestamp b) readings\<rparr>))"

subsection \<open>readWriteRoutine\<close>

text \<open>
  One turn of the loop of \<open>readWriteRoutine\<close>: the message taken from one of the two
  channels is served to the end. A read answers with the batch that \<open>read\<close> returned
  (\<open>Body\<close> stands for the batch handed to \<open>json.Marshal\<close>, status 200), a write with
  status 201 or, when \<open>write\<close> returned an error, with status 400. The loop itself is
  given the messages as a list, in the order in which it takes them from the channels. A
  panic ends the process, so the messages after it are not served.
\<close>

datatype 'f message = ReadMessage "32 word" | WriteMessage "'f Readings"

datatype 'f response = Body "'f Readings" | Status nat

definition StatusCreated :: nat where "StatusCreated = 201"
definition StatusBadRequest :: nat where "StatusBadRequest = 400"

definition serve :: "'f golib \<Rightarrow> string \<Rightarrow> disk \<Rightarrow> 'f message \<Rightarrow> disk \<times> (panic + 'f response)" where
  "serve lib dataDir d msg =
     (case msg of
        ReadMessage sensorId \<Rightarrow>
          (case read lib sensorId dataDir d of
             Inl p \<Rightarrow> (d, Inl p)
           | Inr readings \<Rightarrow> (d, Inr (Body readings)))
      | WriteMessage readings \<Rightarrow>
          (case write lib readings dataDir d of
             (d', Some err) \<Rightarrow> (d', Inr (Status StatusBadRequest))
           | (d', None) \<Rightarrow> (d', Inr (Status StatusCreated))))"

fun readWriteRoutine ::
  "'f golib \<Rightarrow> string \<Rightarrow> disk \<Rightarrow> 'f message list \<Rightarrow> disk \<times> 'f response list \<times> panic option" where
  "readWriteRoutine lib dataDir d [] = (d, [], None)"
| "readWriteRoutine lib dataDir d (msg # msgs) =
     (case serve lib dataDir d msg of
        (d', Inl p) \<Rightarrow> (d', [], Some p)
      | (d', Inr answer) \<Rightarrow>
          (case readWriteRoutine lib dataDir d' msgs of
             (d'', answers, crashed) \<Rightarrow> (d'', answer # answers, crashed)))"

section \<open>sort.Slice as the library implements it\<close>



































section \<open>What sort.Slice is documented to do\<close>


section \<open>Notions used in the statements\<close>

text \<open>The bytes of a log, a log that does not exist yet having none.\<close>

definition log_content :: "disk \<Rightarrow> string \<Rightarrow> string" where
  "log_content d name = (case files d name of None \<Rightarrow> [] | Some f \<Rightarrow> content f)"

text \<open>The log can be opened for appending and the device takes the bytes.\<close>

definition appendable :: "disk \<Rightarrow> string \<Rightarrow> bool" where
  "appendable d name \<longleftrightarrow>
     (case files d name of None \<Rightarrow> dir_writable d | Some f \<Rightarrow> writable f) \<and> space_left d"

text \<open>
  A value that printing and parsing preserve: its printed text is parsed to the same
  value without an error and has no space, newline or carriage return in it. Go's
  \<open>fmt\<close> and \<open>strconv\<close> do this for every \<open>float64\<close> that is equal to itself, that is,
  for all but NaN.
\<close>

definition prints_back :: "'f golib \<Rightarrow> 'f \<Rightarrow> bool" where
  "prints_back lib v \<longleftrightarrow>
     ParseFloat lib (Sprint lib v) = (v, None) \<and>
     SP \<notin> set (Sprint lib v) \<and> NL \<notin> set (Sprint lib v) \<and> CR \<notin> set (Sprint lib v)"

text \<open>
  A reading that the line format can hold (section 4.1 of the specification: no space and
  no newline in the timestamp) and whose line the scanner's buffer can hold.
\<close>

definition storable :: "'f golib \<Rightarrow> 'f Reading \<Rightarrow> bool" where
  "storable lib reading \<longleftrightarrow>
     SP \<notin> set (Timestamp reading) \<and> NL \<notin> set (Timestamp reading) \<and>
     prints_back lib (Value reading) \<and>
     length (encode lib reading) < MaxScanTokenSize"


text \<open>
  A well-formed line: a timestamp without a space, one space, and a value field that
  \<open>ParseFloat\<close> accepts.
\<close>

definition well_formed :: "'f golib \<Rightarrow> string \<Rightarrow> bool" where
  "well_formed lib line \<longleftrightarrow>
     (case Split line SP of
        [ts, val] \<Rightarrow> snd (ParseFloat lib val) = None
      | _ \<Rightarrow> False)"


section \<open>A library of whole numbers to run the model on\<close>

text \<open>
  An instance of the printing and parsing parameters for the concrete runs below. Its
  numbers are the whole numbers, negative zero and the two infinities; a whole number of
  magnitude up to \<open>2^53\<close> is a \<open>float64\<close>. On these, \<open>sample_Sprint\<close> prints what
  \<open>fmt.Fprintln\<close> prints: plain digits below a million, and from there on the shortest
  digits with an exponent (\<open>1e+06\<close>, \<open>1.2345e+06\<close>). \<open>sample_ParseFloat\<close> reads a decimal
  literal (sign, digits, fraction, exponent) and the names of the infinities in any case
  of letters, and returns what \<open>strconv.ParseFloat\<close> returns whenever the literal
  denotes a whole number: the number, or an infinity with \<open>ErrRange\<close> when it is beyond
  the largest \<open>float64\<close>; a text that is no number gives 0 and \<open>ErrSyntax\<close>. The
  library has no numbers with a fraction and no NaN, it does not read hexadecimal or
  underscored literals, and it keeps a whole number beyond \<open>2^53\<close> exact: to a text of
  these kinds it answers \<open>ErrSyntax\<close>, or the exact number, where Go answers with the
  nearest \<open>float64\<close>, and no run below hands it one. \<open>insertion_sort\<close> is the
  sorting function of this instance; it meets the documented property of \<open>sort.Slice\<close>
  and is what \<open>Slice\<close> computes on a slice of at most 12 elements (lemma
  \<open>Slice_short\<close>).
\<close>

datatype sample_float = Whole int | NegZero | PosInf | NegInf

instantiation sample_float :: zero
begin
definition zero_sample_float :: sample_float where "zero_sample_float = Whole 0"
instance ..
end

definition is_digit :: "char \<Rightarrow> bool" where
  "is_digit c \<longleftrightarrow> CHR ''0'' \<le> c \<and> c \<le> CHR ''9''"

fun digits_value :: "nat \<Rightarrow> string \<Rightarrow> nat" where
  "digits_value acc [] = acc"
| "digits_value acc (c # cs) = digits_value (10 * acc + (of_char c - 48)) cs"

definition lower :: "char \<Rightarrow> char" where
  "lower c =
     (case map_of (zip ''ABCDEFGHIJKLMNOPQRSTUVWXYZ'' ''abcdefghijklmnopqrstuvwxyz'') c of
        None \<Rightarrow> c
      | Some l \<Rightarrow> l)"

definition sample_Sprint :: "sample_float \<Rightarrow> string" where
  "sample_Sprint v =
     (case v of
        PosInf \<Rightarrow> ''+Inf''
      | NegInf \<Rightarrow> ''-Inf''
      | NegZero \<Rightarrow> ''-0''
      | Whole i \<Rightarrow>
          (let digs = decimal (nat \<bar>i\<bar>);
               exp = length digs - 1;
               shortest = rev (dropWhile (\<lambda>c. c = CHR ''0'') (rev digs));
               body =
                 (if exp < 6 then digs
                  else hd shortest # (if tl shortest = [] then [] else CHR ''.'' # tl shortest) @
                       ''e+'' @ (if exp < 10 then CHR ''0'' # decimal exp else decimal exp))
           in if i < 0 then CHR ''-'' # body else body))"

definition sample_exponent :: "string \<Rightarrow> int option" where
  "sample_exponent s =
     (case s of
        [] \<Rightarrow> Some 0
      | c # cs \<Rightarrow>
          if lower c \<noteq> CHR ''e'' then None
          else (let neg = (cs \<noteq> [] \<and> hd cs = CHR ''-'');
                    ds = (if cs \<noteq> [] \<and> (hd cs = CHR ''-'' \<or> hd cs = CHR ''+'') then tl cs else cs)
                in if ds = [] \<or> \<not> list_all is_digit ds then None
                   else Some (if neg then - int (digits_value 0 ds) else int (digits_value 0 ds))))"

definition sample_ParseFloat :: "string \<Rightarrow> sample_float \<times> NumError option" where
  "sample_ParseFloat s =
     (let neg = (s \<noteq> [] \<and> hd s = CHR ''-'');
          body = (if s \<noteq> [] \<and> (hd s = CHR ''-'' \<or> hd s = CHR ''+'') then tl s else s);
          whole = takeWhile is_digit body;
          rest = dropWhile is_digit body;
          frac = (if rest \<noteq> [] \<and> hd rest = CHR ''.'' then takeWhile is_digit (tl rest) else []);
          tail = (if rest \<noteq> [] \<and> hd rest = CHR ''.'' then dropWhile is_digit (tl rest) else rest)
      in if map lower body = ''inf'' \<or> map lower body = ''infinity''
         then (if neg then NegInf else PosInf, None)
         else if whole @ frac = [] then (0, Some ErrSyntax)
         else (case sample_exponent tail of
                 None \<Rightarrow> (0, Some ErrSyntax)
               | Some e \<Rightarrow>
                   (let m = digits_value 0 (whole @ frac);
                        shift = e - int (length frac)
                    in if shift < 0 \<and> m mod 10 ^ nat (- shift) \<noteq> 0 then (0, Some ErrSyntax)
                       else (let n = (if shift < 0 then m div 10 ^ nat (- shift) else m * 10 ^ nat shift)
                             in if 2 ^ 1024 - 2 ^ 970 \<le> n
                                then (if neg then NegInf else PosInf, Some ErrRange)
                                else if neg \<and> n = 0 then (NegZero, None)
                                else (Whole (if neg then - int n else int n), None)))))"

fun insert_after :: "('a \<Rightarrow> 'a \<Rightarrow> bool) \<Rightarrow> 'a \<Rightarrow> 'a list \<Rightarrow> 'a list" where
  "insert_after lt x [] = [x]"
| "insert_after lt x (y # ys) = (if lt x y then x # y # ys else y # insert_after lt x ys)"

definition insertion_sort :: "('a \<Rightarrow> 'a \<Rightarrow> bool) \<Rightarrow> 'a list \<Rightarrow> 'a list" where
  "insertion_sort lt xs = foldl (\<lambda>placed x. insert_after lt x placed) [] xs"

definition sample_lib :: "sample_float golib" where
  "sample_lib =
     \<lparr>Sprint = sample_Sprint, ParseFloat = sample_ParseFloat, sort_Slice = insertion_sort\<rparr>"



text \<open>An empty data directory, and a disk holding one log with the given bytes.\<close>

definition fresh_disk :: disk where
  "fresh_disk = \<lparr>files = Map.empty, dir_writable = True, space_left = True\<rparr>"

definition disk_with :: "string \<Rightarrow> osfile \<Rightarrow> bool \<Rightarrow> disk" where
  "disk_with name f space = \<lparr>files = [name \<mapsto> f], dir_writable = True, space_left = space\<rparr>"

section \<open>Facts about the library model\<close>

subsection \<open>Splitting and scanning\<close>

lemma Split_not_Nil: "Split s sep \<noteq> []"
  by (induction s) (auto split: list.splits)

lemma Split_no_sep: "sep \<notin> set s \<Longrightarrow> Split s sep = [s]"
  by (induction s) auto

lemma Split_append: "sep \<notin> set a \<Longrightarrow> Split (a @ sep # rest) sep = a # Split rest sep"
  by (induction a) auto

lemma Split_one: "Split s sep = [b] \<Longrightarrow> s = b"
  by (induction s arbitrary: b) (auto split: if_splits list.splits simp: Split_not_Nil)

lemma Split_two: "Split line sep = [a, b] \<Longrightarrow> line = a @ sep # b"
proof (induction line arbitrary: a)
  case Nil
  then show ?case by simp
next
  case (Cons c cs)
  show ?case
  proof (cases "c = sep")
    case True
    with Cons.prems have "a = []" and "Split cs sep = [b]" by simp_all
    then show ?thesis using True Split_one by fastforce
  next
    case False
    with Cons.prems obtain f where "a = c # f" and "Split cs sep = [f, b]"
      by (auto split: list.splits)
    then show ?thesis using Cons.IH by simp
  qed
qed

lemma length_Split: "length (Split s sep) = Suc (count_list s sep)"
  by (induction s) (auto split: list.splits simp: Split_not_Nil)

lemma Split_two_fields:
  assumes "Split line sep = [a, b]"
  shows "sep \<notin> set a \<and> sep \<notin> set b"
proof -
  from assms have "line = a @ sep # b" by (rule Split_two)
  moreover from assms have "count_list line sep = 1"
    using length_Split [of line sep] by simp
  ultimately have "count_list a sep = 0" and "count_list b sep = 0" by simp_all
  then show ?thesis by (simp add: count_list_0_iff)
qed


lemma Scan_line:
  "NL \<notin> set l \<Longrightarrow> Scan seen (l @ NL # rest) = token (seen @ l) (Scan [] rest)"
  by (induction l arbitrary: seen) auto

lemma Scan_lines:
  "\<forall>l \<in> set ls. NL \<notin> set l \<and> length l < MaxScanTokenSize \<Longrightarrow>
   Scan [] (concat (map (\<lambda>l. l @ [NL]) ls)) = map dropCR ls"
proof (induction ls)
  case Nil
  show ?case by simp
next
  case (Cons l ls)
  then have "Scan [] (l @ NL # concat (map (\<lambda>l. l @ [NL]) ls)) = dropCR l # map dropCR ls"
    by (simp add: Scan_line token_def)
  then show ?case by simp
qed

subsection \<open>Lines of readings whose values print back\<close>

lemma last_encode:
  "last (encode lib r) = (if Sprint lib (Value r) = [] then SP else last (Sprint lib (Value r)))"
  by (simp add: encode_def)

lemma dropCR_encode:
  assumes "prints_back lib (Value r)"
  shows "dropCR (encode lib r) = encode lib r"
proof -
  from assms have "CR \<notin> set (Sprint lib (Value r))"
    by (simp add: prints_back_def)
  then have "Sprint lib (Value r) \<noteq> [] \<Longrightarrow> last (Sprint lib (Value r)) \<noteq> CR"
    by (metis last_in_set)
  then have "last (encode lib r) \<noteq> CR"
    by (simp add: last_encode)
  then show ?thesis by (simp add: dropCR_def)
qed

lemma decode_encode:
  assumes "prints_back lib (Value r)" and "SP \<notin> set (Timestamp r)"
  shows "decode lib (encode lib r) = Inr r"
proof -
  from assms(1) have sp: "SP \<notin> set (Sprint lib (Value r))"
    and parsed: "ParseFloat lib (Sprint lib (Value r)) = (Value r, None)"
    by (simp_all add: prints_back_def)
  have "Split (encode lib r) SP = [Timestamp r, Sprint lib (Value r)]"
    using assms(2) sp by (simp add: encode_def Split_append Split_no_sep)
  then show ?thesis by (simp add: decode_def parsed)
qed


lemma NL_encode:
  assumes "storable lib r"
  shows "NL \<notin> set (encode lib r)"
  using assms by (simp add: encode_def storable_def prints_back_def)

lemma Fprintln_fun: "Fprintln lib = (\<lambda>r. encode lib r @ [NL])"
  by (rule ext) (simp add: Fprintln_def)

lemma Scan_printed:
  assumes "\<forall>r \<in> set rs. storable lib r"
  shows "Scan [] (concat (map (Fprintln lib) rs)) = map (encode lib) rs"
proof -
  have "\<forall>l \<in> set (map (encode lib) rs). NL \<notin> set l \<and> length l < MaxScanTokenSize"
    using assms by (auto simp: NL_encode) (simp add: storable_def)
  then have "Scan [] (concat (map (\<lambda>l. l @ [NL]) (map (encode lib) rs))) =
             map dropCR (map (encode lib) rs)"
    by (rule Scan_lines)
  moreover have "map dropCR (map (encode lib) rs) = map (encode lib) rs"
    using assms by (simp add: dropCR_encode storable_def)
  ultimately show ?thesis
    by (simp add: Fprintln_fun comp_def)
qed


subsection \<open>The sorting function of the instance\<close>





subsection \<open>Unfolding the model on concrete inputs\<close>

lemmas run_simps =
  serve_def write_def read_def filename_def decimal.simps os_OpenFile_def os_Write_def os_Open_def
  fresh_disk_def disk_with_def Fprintln_def encode_def token_def MaxScanTokenSize_def dropCR_def
  decode_def StatusCreated_def StatusBadRequest_def

lemmas sample_simps =
  sample_lib_def sample_Sprint_def sample_ParseFloat_def sample_exponent_def is_digit_def
  lower_def insertion_sort_def zero_sample_float_def Let_def

lemma filename_sample_1: "filename ''/data/'' 1 = ''/data/1''"
  by (simp add: filename_def decimal.simps)


lemma prints_back_3: "prints_back sample_lib (Whole 3)"
  by (simp add: prints_back_def sample_simps decimal.simps)

subsection \<open>sort.Slice on a short slice\<close>















section \<open>Writes followed by a read\<close>









section \<open>Appending to a log\<close>

text \<open>
  Claim C3. When the log can be opened for appending (it is created if it does not exist)
  and the device takes the bytes, \<open>write\<close> returns no error and afterwards the log holds
  what it held before, followed by one printed line for each reading of the batch, in the
  order of the batch. No other file changes.
\<close>

theorem write_appends_lines:
  assumes "appendable d (filename dataDir (Sensor_id batch))"
  shows "snd (write lib batch dataDir d) = None \<and>
         log_content (fst (write lib batch dataDir d)) (filename dataDir (Sensor_id batch)) =
           log_content d (filename dataDir (Sensor_id batch)) @
           concat (map (Fprintln lib) (Readings batch)) \<and>
         (\<forall>other. other \<noteq> filename dataDir (Sensor_id batch) \<longrightarrow>
            files (fst (write lib batch dataDir d)) other = files d other)"
  using assms
  by (auto simp: appendable_def write_def os_OpenFile_def os_Write_def log_content_def Let_def
      split: option.splits)

theorem write_appends_lines_witness:
  "appendable (disk_with ''/data/1'' \<lparr>content = ''t0 7\<newline>'', readable = True, writable = True\<rparr> True)
     (filename ''/data/'' 1) \<and>
   log_content
     (fst (write sample_lib
        \<lparr>Sensor_id = 1, Readings = [\<lparr>Timestamp = ''t2'', Value = Whole 5\<rparr>,
                                   \<lparr>Timestamp = ''t1'', Value = Whole 3\<rparr>]\<rparr>
        ''/data/''
        (disk_with ''/data/1'' \<lparr>content = ''t0 7\<newline>'', readable = True, writable = True\<rparr> True)))
     ''/data/1'' = ''t0 7\<newline>t2 5\<newline>t1 3\<newline>''"
proof -
  have ok:
    "appendable (disk_with ''/data/1'' \<lparr>content = ''t0 7\<newline>'', readable = True, writable = True\<rparr> True)
       (filename ''/data/''
          (Sensor_id \<lparr>Sensor_id = 1, Readings = [\<lparr>Timestamp = ''t2'', Value = Whole 5\<rparr>,
                                               \<lparr>Timestamp = ''t1'', Value = Whole 3\<rparr>]\<rparr>))"
    by (simp add: filename_sample_1 appendable_def disk_with_def)
  from write_appends_lines [OF ok, of sample_lib] ok show ?thesis
    by (simp add: filename_sample_1 log_content_def disk_with_def encode_def Fprintln_def
        sample_lib_def sample_Sprint_def decimal.simps)
qed

section \<open>Reading a log that cannot be opened\<close>

text \<open>
  Claim C4. For a sensor whose log file does not exist, \<open>read\<close> returns the batch with
  that sensor id and no readings, and the worker answers the read request with this batch:
  there is no error and no panic.
\<close>

theorem read_absent_sensor:
  assumes "files d (filename dataDir sensorId) = None"
  shows "read lib sensorId dataDir d = Inr \<lparr>Sensor_id = sensorId, Readings = []\<rparr> \<and>
         serve lib dataDir d (ReadMessage sensorId) =
           (d, Inr (Body \<lparr>Sensor_id = sensorId, Readings = []\<rparr>))"
  using assms by (simp add: read_def serve_def os_Open_def)

theorem read_absent_sensor_witness:
  "files fresh_disk (filename ''/data/'' 42) = None \<and>
   read sample_lib 42 ''/data/'' fresh_disk = Inr \<lparr>Sensor_id = 42, Readings = []\<rparr> \<and>
   serve sample_lib ''/data/'' fresh_disk (ReadMessage 42) =
     (fresh_disk, Inr (Body \<lparr>Sensor_id = 42, Readings = []\<rparr>))"
  using read_absent_sensor [of fresh_disk "''/data/''" 42 sample_lib]
  by (simp add: fresh_disk_def)

text \<open>
  Claim C10. Whatever the error with which opening the log fails (the file is missing, or
  it may not be read), \<open>read\<close> returns the batch with the requested sensor id and no
  readings, and the worker answers with it: the error is not passed on, and a log that
  cannot be read looks like a sensor that never wrote.
\<close>

theorem read_open_error:
  assumes "os_Open d (filename dataDir sensorId) = Inl err"
  shows "read lib sensorId dataDir d = Inr \<lparr>Sensor_id = sensorId, Readings = []\<rparr> \<and>
         serve lib dataDir d (ReadMessage sensorId) =
           (d, Inr (Body \<lparr>Sensor_id = sensorId, Readings = []\<rparr>))"
  using assms by (simp add: read_def serve_def)

theorem read_open_error_witness:
  "os_Open (disk_with ''/data/7'' \<lparr>content = ''t 1\<newline>'', readable = False, writable = True\<rparr> True)
     (filename ''/data/'' 7) = Inl EACCES \<and>
   read sample_lib 7 ''/data/''
     (disk_with ''/data/7'' \<lparr>content = ''t 1\<newline>'', readable = False, writable = True\<rparr> True) =
     Inr \<lparr>Sensor_id = 7, Readings = []\<rparr>"
proof -
  have opened:
    "os_Open (disk_with ''/data/7'' \<lparr>content = ''t 1\<newline>'', readable = False, writable = True\<rparr> True)
       (filename ''/data/'' 7) = Inl EACCES"
    by (simp add: run_simps)
  from read_open_error [OF opened, of sample_lib] opened show ?thesis
    by simp
qed

section \<open>The codec\<close>

text \<open>
  Claim C5, as amended. A reading whose timestamp has no space and whose value printing
  and parsing preserve is decoded from its line as it was; when it is storable, the
  scanner finds exactly that line in what \<open>write\<close> printed. A well-formed line is
  decoded to the reading of its two fields, and encoding that reading gives the line back
  exactly when the value field is the text that printing gives the value; the reading
  itself is decoded again from its own line.
\<close>

theorem codec_round_trip:
  "(SP \<notin> set (Timestamp r) \<and> prints_back lib (Value r) \<longrightarrow>
      decode lib (encode lib r) = Inr r) \<and>
   (storable lib r \<longrightarrow> Scan [] (Fprintln lib r) = [encode lib r]) \<and>
   (well_formed lib line \<longrightarrow>
      (\<exists>reading. decode lib line = Inr reading \<and>
         Timestamp reading = Split line SP ! 0 \<and>
         Value reading = fst (ParseFloat lib (Split line SP ! 1)) \<and>
         (encode lib reading = line \<longleftrightarrow> Sprint lib (Value reading) = Split line SP ! 1) \<and>
         (prints_back lib (Value reading) \<longrightarrow> decode lib (encode lib reading) = Inr reading)))"
proof (intro conjI impI)
  assume "SP \<notin> set (Timestamp r) \<and> prints_back lib (Value r)"
  then show "decode lib (encode lib r) = Inr r" by (simp add: decode_encode)
next
  assume "storable lib r"
  then show "Scan [] (Fprintln lib r) = [encode lib r]"
    using Scan_printed [of "[r]" lib] by simp
next
  assume wf: "well_formed lib line"
  then obtain ts val where split: "Split line SP = [ts, val]"
    by (auto simp: well_formed_def split: list.splits)
  from split have line: "line = ts @ SP # val" by (rule Split_two)
  from split have nosp: "SP \<notin> set ts" using Split_two_fields by fastforce
  let ?reading = "\<lparr>Timestamp = ts, Value = fst (ParseFloat lib val)\<rparr>"
  have dec: "decode lib line = Inr ?reading"
    using split by (simp add: decode_def)
  have "encode lib ?reading = line \<longleftrightarrow> Sprint lib (Value ?reading) = val"
    by (simp add: encode_def line)
  moreover have "prints_back lib (Value ?reading) \<longrightarrow> decode lib (encode lib ?reading) = Inr ?reading"
    using nosp by (simp add: decode_encode)
  ultimately show "\<exists>reading. decode lib line = Inr reading \<and>
         Timestamp reading = Split line SP ! 0 \<and>
         Value reading = fst (ParseFloat lib (Split line SP ! 1)) \<and>
         (encode lib reading = line \<longleftrightarrow> Sprint lib (Value reading) = Split line SP ! 1) \<and>
         (prints_back lib (Value reading) \<longrightarrow> decode lib (encode lib reading) = Inr reading)"
    using dec split by (intro exI [of _ ?reading]) simp
qed

theorem codec_round_trip_witness:
  "SP \<notin> set (Timestamp \<lparr>Timestamp = ''2024-01-01'', Value = Whole 3\<rparr>) \<and>
   prints_back sample_lib (Value \<lparr>Timestamp = ''2024-01-01'', Value = Whole 3\<rparr>) \<and>
   storable sample_lib \<lparr>Timestamp = ''2024-01-01'', Value = Whole 3\<rparr> \<and>
   well_formed sample_lib ''2024-01-02 5'' \<and>
   decode sample_lib (encode sample_lib \<lparr>Timestamp = ''2024-01-01'', Value = Whole 3\<rparr>) =
     Inr \<lparr>Timestamp = ''2024-01-01'', Value = Whole 3\<rparr> \<and>
   Scan [] (Fprintln sample_lib \<lparr>Timestamp = ''2024-01-01'', Value = Whole 3\<rparr>) = [''2024-01-01 3''] \<and>
   (\<exists>reading. decode sample_lib ''2024-01-02 5'' = Inr reading \<and>
      encode sample_lib reading = ''2024-01-02 5'')"
proof -
  have hyps: "SP \<notin> set (Timestamp \<lparr>Timestamp = ''2024-01-01'', Value = Whole 3\<rparr>)"
    "prints_back sample_lib (Value \<lparr>Timestamp = ''2024-01-01'', Value = Whole 3\<rparr>)"
    "storable sample_lib \<lparr>Timestamp = ''2024-01-01'', Value = Whole 3\<rparr>"
    "well_formed sample_lib ''2024-01-02 5''"
    "encode sample_lib \<lparr>Timestamp = ''2024-01-01'', Value = Whole 3\<rparr> = ''2024-01-01 3''"
    "Sprint sample_lib (fst (ParseFloat sample_lib (Split ''2024-01-02 5'' SP ! 1))) =
       Split ''2024-01-02 5'' SP ! 1"
    using prints_back_3
    by (simp_all add: storable_def well_formed_def run_simps sample_simps)
  from codec_round_trip [of "\<lparr>Timestamp = ''2024-01-01'', Value = Whole 3\<rparr>" sample_lib
      "''2024-01-02 5''"]
  show ?thesis using hyps by auto
qed

text \<open>
  Claim C5 fails as it is stated, for any well-formed line: the line \<open>t 05\<close> is
  decoded to the value 5, which is printed as \<open>5\<close>, so encoding gives \<open>t 5\<close>.
\<close>

theorem encode_decode_counterexample:
  "well_formed sample_lib ''t 05'' \<and>
   decode sample_lib ''t 05'' = Inr \<lparr>Timestamp = ''t'', Value = Whole 5\<rparr> \<and>
   encode sample_lib \<lparr>Timestamp = ''t'', Value = Whole 5\<rparr> = ''t 5'' \<and>
   ''t 5'' \<noteq> ''t 05''"
  by (simp add: well_formed_def run_simps sample_simps)

section \<open>The order of the readings returned\<close>






section \<open>Values that do not parse\<close>




section \<open>Errors of a write\<close>

lemma write_open_error:
  assumes "os_OpenFile d (filename dataDir (Sensor_id batch)) = Inl err"
  shows "write lib batch dataDir d = (d, Some err) \<and>
         serve lib dataDir d (WriteMessage batch) = (d, Inr (Status StatusBadRequest))"
  using assms by (simp add: write_def serve_def)

text \<open>
  Claim C7. The claim holds for a log that cannot be opened (lemma \<open>write_open_error\<close>).
  It does not hold for a write that fails: on a device without space left the bytes are
  not written, and \<open>write\<close> still returns no error, leaves the log as it was, and the
  worker answers with status 201.
\<close>

theorem write_hides_failed_flush:
  "os_Write (disk_with ''/data/1'' \<lparr>content = ''t0 7\<newline>'', readable = True, writable = True\<rparr> False)
     ''/data/1'' (Fprintln sample_lib \<lparr>Timestamp = ''t1'', Value = Whole 3\<rparr>) = Inl ENOSPC \<and>
   write sample_lib \<lparr>Sensor_id = 1, Readings = [\<lparr>Timestamp = ''t1'', Value = Whole 3\<rparr>]\<rparr> ''/data/''
     (disk_with ''/data/1'' \<lparr>content = ''t0 7\<newline>'', readable = True, writable = True\<rparr> False) =
     (disk_with ''/data/1'' \<lparr>content = ''t0 7\<newline>'', readable = True, writable = True\<rparr> False, None) \<and>
   snd (serve sample_lib ''/data/''
     (disk_with ''/data/1'' \<lparr>content = ''t0 7\<newline>'', readable = True, writable = True\<rparr> False)
     (WriteMessage \<lparr>Sensor_id = 1, Readings = [\<lparr>Timestamp = ''t1'', Value = Whole 3\<rparr>]\<rparr>)) =
     Inr (Status StatusCreated)"
  by (simp add: run_simps sample_simps)

section \<open>Lines without a space\<close>

text \<open>
  Claim C9. The claim does not hold: \<open>read\<close> panics at a line without a space, an
  empty line included, because it takes the second field of the line without looking at
  the number of fields. Such a line gets into a log through the program itself: a
  timestamp with a newline in it is printed as two lines, and the read request that
  follows ends the process.
\<close>

theorem read_panics_on_line_without_space:
  "snd (readWriteRoutine sample_lib ''/data/'' fresh_disk
          [WriteMessage \<lparr>Sensor_id = 1, Readings = [\<lparr>Timestamp = ''a\<newline>b'', Value = Whole 1\<rparr>]\<rparr>,
           ReadMessage 1]) =
     ([Status StatusCreated], Some (IndexOutOfRange 1 1)) \<and>
   read sample_lib 1 ''/data/''
     (disk_with ''/data/1'' \<lparr>content = ''t 1\<newline>\<newline>'', readable = True, writable = True\<rparr> True) =
     Inl (IndexOutOfRange 1 1)"
  by (simp add: run_simps sample_simps)

end
